theory Spec2Isabelle
  imports Complex_Main "HOL-Library.Sublist"
begin

section \<open>Strings\<close>

text \<open>
  Email addresses, response statuses, skip reasons and exception messages are ASCII text
  and are modelled as HOL strings. Python's \<^verbatim>\<open>str.lower()\<close> is modelled on the
  letters A to Z; every other character is left as it is.
\<close>

definition lower_char :: "char \<Rightarrow> char" where
  "lower_char c =
     (case map_of (zip ''ABCDEFGHIJKLMNOPQRSTUVWXYZ'' ''abcdefghijklmnopqrstuvwxyz'') c of
        None \<Rightarrow> c
      | Some d \<Rightarrow> d)"

definition lower :: "string \<Rightarrow> string" where
  "lower s = map lower_char s"

text \<open>\<^verbatim>\<open>needle in haystack\<close> on Python strings: some position of the haystack starts
  with the needle.\<close>

fun contains :: "'a list \<Rightarrow> 'a list \<Rightarrow> bool" where
  "contains needle [] = prefix needle []"
| "contains needle (c # cs) = (prefix needle (c # cs) \<or> contains needle cs)"

section \<open>Configuration (config.py)\<close>

text \<open>
  Free text (the cost tag, event descriptions) holds characters beyond ASCII, and the
  annotation pattern tests single code points, so such text is a list of Unicode code
  points, as a Python \<^verbatim>\<open>str\<close> is.
\<close>

type_synonym ustring = "nat list"

record config =
  domain :: string
  default_rate :: rat
  cost_tag :: ustring
  internal_only :: bool

section \<open>Events\<close>

text \<open>
  An attendee dictionary: \<open>email\<close> and \<open>responseStatus\<close> are \<open>None\<close> when the key is
  absent. An event dictionary: \<open>start_dateTime\<close> and \<open>end_dateTime\<close> are the instants
  (in seconds) that \<^verbatim>\<open>datetime.fromisoformat\<close> reads from \<^verbatim>\<open>start["dateTime"]\<close> and
  \<^verbatim>\<open>end["dateTime"]\<close>, and \<open>None\<close> when that key is absent or empty, as for a
  date-only (all-day) event. Python floats are modelled by exact rationals.
\<close>

record attendee =
  email :: "string option"
  responseStatus :: "string option"

record event =
  event_id :: string
  start_dateTime :: "rat option"
  end_dateTime :: "rat option"
  attendees :: "attendee list"
  description :: "ustring option"

section \<open>Cost policy (cost_calculator.py)\<close>

definition internal_email :: "config \<Rightarrow> string \<Rightarrow> bool" where
  "internal_email cfg e = suffix (CHR ''@'' # domain cfg) (lower e)"

definition event_duration_hours :: "event \<Rightarrow> rat" where
  "event_duration_hours ev =
     (case start_dateTime ev of
        None \<Rightarrow> 0
      | Some start_dt \<Rightarrow>
          (case end_dateTime ev of
             None \<Rightarrow> 0
           | Some end_dt \<Rightarrow> max 0 (end_dt - start_dt) / 3600))"

text \<open>
  \<^verbatim>\<open>int(round(x, 0))\<close>: Python rounds a float to the closest integer and, when two
  integers are equally close, to the even one.
\<close>

definition py_round :: "rat \<Rightarrow> int" where
  "py_round x =
     (let f = \<lfloor>x\<rfloor>; d = x - of_int f
      in if d < 1 / 2 then f
         else if 1 / 2 < d then f + 1
         else if even f then f else f + 1)"

text \<open>
  The result dictionary. A skip result holds only the keys \<open>invited_cost\<close>,
  \<open>effective_cost\<close> and \<open>skip_reason\<close>; the keys it lacks are \<open>None\<close> here. In a
  qualifying result \<open>skip_reason\<close> is Python's \<open>None\<close>.
\<close>

record cost_info =
  invited_cost :: int
  effective_cost :: int
  invited_count :: "nat option"
  effective_count :: "nat option"
  hours :: "rat option"
  skip_reason :: "string option"

definition skip_result :: "string \<Rightarrow> cost_info" where
  "skip_result reason =
     \<lparr>invited_cost = -1, effective_cost = -1, invited_count = None,
      effective_count = None, hours = None, skip_reason = Some reason\<rparr>"

definition has_email :: "attendee \<Rightarrow> bool" where
  "has_email a = (case email a of None \<Rightarrow> False | Some e \<Rightarrow> e \<noteq> [])"

definition is_internal :: "config \<Rightarrow> attendee \<Rightarrow> bool" where
  "is_internal cfg a = (case email a of None \<Rightarrow> False | Some e \<Rightarrow> internal_email cfg e)"

definition is_effective :: "attendee \<Rightarrow> bool" where
  "is_effective a =
     (let response = lower (case responseStatus a of None \<Rightarrow> ''needsAction'' | Some r \<Rightarrow> r)
      in response \<in> set [''accepted'', ''tentative'', ''needsaction''])"

text \<open>The optional argument \<open>hourly_rate\<close>: the configured default rate when it is \<open>None\<close>.\<close>

definition hourly_rate_or_default :: "config \<Rightarrow> rat option \<Rightarrow> rat" where
  "hourly_rate_or_default cfg rate_arg =
     (case rate_arg of None \<Rightarrow> default_rate cfg | Some r \<Rightarrow> r)"

definition compute_meeting_cost :: "config \<Rightarrow> rat option \<Rightarrow> event \<Rightarrow> cost_info" where
  "compute_meeting_cost cfg rate_arg ev =
     (let hourly_rate = hourly_rate_or_default cfg rate_arg;
          atts = filter has_email (attendees ev);
          h = event_duration_hours ev
      in if h \<le> 0 then skip_result ''no_duration''
         else
           let internal_attendees = filter (is_internal cfg) atts
           in if internal_only cfg \<and> length internal_attendees \<noteq> length atts
              then skip_result ''mixed_meeting''
              else if length internal_attendees = 0
              then skip_result ''no_internal_attendees''
              else if length internal_attendees = 1
              then skip_result ''solo_meeting''
              else
                let inv_cost = py_round (h * of_nat (length internal_attendees) * hourly_rate);
                    effective_attendees = filter is_effective internal_attendees
                in if length effective_attendees = 0
                   then skip_result ''all_declined''
                   else if length effective_attendees = 1
                   then skip_result ''effective_solo_meeting''
                   else
                     \<lparr>invited_cost = inv_cost,
                      effective_cost =
                        py_round (h * of_nat (length effective_attendees) * hourly_rate),
                      invited_count = Some (length internal_attendees),
                      effective_count = Some (length effective_attendees),
                      hours = Some h,
                      skip_reason = None\<rparr>)"

text \<open>The three attendee lists that \<open>compute_meeting_cost\<close> builds, named for the statements
  below.\<close>

definition emailed_attendees :: "event \<Rightarrow> attendee list" where
  "emailed_attendees ev = filter has_email (attendees ev)"

definition internal_attendees :: "config \<Rightarrow> event \<Rightarrow> attendee list" where
  "internal_attendees cfg ev = filter (is_internal cfg) (emailed_attendees ev)"

definition effective_attendees :: "config \<Rightarrow> event \<Rightarrow> attendee list" where
  "effective_attendees cfg ev = filter is_effective (internal_attendees cfg ev)"

section \<open>Annotation rendering (calendar_service.py)\<close>

definition ascii :: "string \<Rightarrow> ustring" where
  "ascii s = map of_char s"

definition newline :: nat where
  "newline = 10"


text \<open>\<^verbatim>\<open>str(n)\<close> and the format \<^verbatim>\<open>{n:,}\<close> (decimal digits in groups of three, separated
  by commas, a minus sign first for a negative number).\<close>

definition digit_char :: "nat \<Rightarrow> nat" where
  "digit_char d = 48 + d"

function str_nat :: "nat \<Rightarrow> ustring" where
  "str_nat n = (if n < 10 then [digit_char n] else str_nat (n div 10) @ [digit_char (n mod 10)])"
  by pat_completeness auto
termination
  by (relation "measure id") auto

declare str_nat.simps [simp del]

definition str_int :: "int \<Rightarrow> ustring" where
  "str_int i = (if i < 0 then 45 # str_nat (nat (- i)) else str_nat (nat i))"

function group_thousands :: "nat \<Rightarrow> ustring" where
  "group_thousands n =
     (if n < 1000 then str_nat n
      else group_thousands (n div 1000) @
           [44, digit_char (n mod 1000 div 100), digit_char (n mod 100 div 10),
            digit_char (n mod 10)])"
  by pat_completeness auto
termination
  by (relation "measure id") auto

declare group_thousands.simps [simp del]

definition format_commas :: "int \<Rightarrow> ustring" where
  "format_commas i =
     (if i < 0 then 45 # group_thousands (nat (- i)) else group_thousands (nat i))"

text \<open>The tier markers are U+1F534 (red), U+1F7E0 (orange) and U+1F7E2 (green).\<close>

definition get_cost_display_format :: "int \<Rightarrow> ustring" where
  "get_cost_display_format cost =
     (if cost > 1000 then 128308 # ascii '' $'' @ format_commas cost
      else if cost > 500 then 128992 # ascii '' $'' @ format_commas cost
      else 128994 # ascii '' $'' @ format_commas cost)"

datatype exn = KeyError string | TypeError | UpstreamError string

text \<open>The subordinate line starts with U+2514 U+2500; the arrow is U+2192. Reading a key
  that a skip result lacks raises \<open>KeyError\<close>.\<close>

definition create_dual_cost_display :: "config \<Rightarrow> cost_info \<Rightarrow> exn + ustring" where
  "create_dual_cost_display cfg ci =
     (case invited_count ci of
        None \<Rightarrow> Inl (KeyError ''invited_count'')
      | Some ic \<Rightarrow>
          (case effective_count ci of
             None \<Rightarrow> Inl (KeyError ''effective_count'')
           | Some ec \<Rightarrow>
               if invited_cost ci = effective_cost ci
               then Inr (cost_tag cfg @ ascii '': '' @ get_cost_display_format (effective_cost ci))
               else Inr (cost_tag cfg @ ascii '': '' @ get_cost_display_format (effective_cost ci)
                         @ [newline]
                         @ [9492, 9472] @ ascii '' Invited cost: ''
                         @ get_cost_display_format (invited_cost ci)
                         @ ascii '' ('' @ str_nat ic @ ascii '' invited '' @ [8594]
                         @ ascii '' '' @ str_nat ec @ ascii '' attending)'')))"

subsection \<open>The tag pattern\<close>

text \<open>
  The pattern is \<^verbatim>\<open>re.escape(tag) + r":.*?(?=\n(?![...])|$)"\<close> with \<^verbatim>\<open>re.DOTALL\<close>, the
  character class holding U+2514 and U+2500. A match starts where the text reads the tag
  followed by a colon; the lazy \<^verbatim>\<open>.*?\<close> then takes characters (newlines too) up to the
  first position where the lookahead holds. The lookahead holds before a newline that is
  not followed by U+2514 or U+2500 (so also before a newline that ends the text), and,
  through \<^verbatim>\<open>$\<close>, at the end of the text or before a newline that ends it.
\<close>

definition sub_markers :: "nat set" where
  "sub_markers = {9492, 9472}"

definition lookahead :: "ustring \<Rightarrow> bool" where
  "lookahead s =
     ((case s of [] \<Rightarrow> False
       | c # cs \<Rightarrow> c = newline \<and> (case cs of [] \<Rightarrow> True | d # _ \<Rightarrow> d \<notin> sub_markers))
      \<or> (s = [] \<or> s = [newline]))"

text \<open>What is left of the text after the lazy \<^verbatim>\<open>.*?\<close> has stopped.\<close>

fun lazy_rest :: "ustring \<Rightarrow> ustring" where
  "lazy_rest [] = []"
| "lazy_rest (c # cs) = (if lookahead (c # cs) then c # cs else lazy_rest cs)"

definition tag_pattern_search :: "ustring \<Rightarrow> ustring \<Rightarrow> bool" where
  "tag_pattern_search tag desc = contains (tag @ ascii '':'') desc"

lemma length_lazy_rest: "length (lazy_rest s) \<le> length s"
  by (induction s) auto

text \<open>
  \<^verbatim>\<open>re.sub(tag_pattern, cost_line, desc, flags=re.DOTALL)\<close>: every match, found from left to
  right without overlap, is replaced. The replacement is inserted as it is, which is what
  \<^verbatim>\<open>re.sub\<close> does with a replacement that holds no backslash.
\<close>

function tag_pattern_sub :: "ustring \<Rightarrow> ustring \<Rightarrow> ustring \<Rightarrow> ustring" where
  "tag_pattern_sub tag repl s =
     (if prefix (tag @ ascii '':'') s
      then repl @ tag_pattern_sub tag repl (lazy_rest (drop (length (tag @ ascii '':'')) s))
      else (case s of [] \<Rightarrow> [] | c # cs \<Rightarrow> c # tag_pattern_sub tag repl cs))"
  by pat_completeness auto
termination
proof (relation "measure (\<lambda>(tag, repl, s). length s)")
  show "wf (measure (\<lambda>(tag, repl, s). length s))" by simp
next
  fix tag repl s :: ustring
  assume p: "prefix (tag @ ascii '':'') s"
  then have "length (tag @ ascii '':'') \<le> length s" by (rule prefix_length_le)
  then have "length (drop (length (tag @ ascii '':'')) s) < length s"
    by (simp add: ascii_def)
  with length_lazy_rest [of "drop (length (tag @ ascii '':'')) s"]
  show "((tag, repl, lazy_rest (drop (length (tag @ ascii '':'')) s)), (tag, repl, s))
          \<in> measure (\<lambda>(tag, repl, s). length s)"
    by simp
next
  fix tag repl s :: ustring and c cs
  assume "s = c # cs"
  then show "((tag, repl, cs), (tag, repl, s)) \<in> measure (\<lambda>(tag, repl, s). length s)"
    by simp
qed

declare tag_pattern_sub.simps [simp del]

text \<open>\<^verbatim>\<open>str.strip()\<close> removes leading and trailing whitespace; \<open>is_space\<close> lists the code
  points for which \<^verbatim>\<open>str.isspace()\<close> holds.\<close>

definition is_space :: "nat \<Rightarrow> bool" where
  "is_space c =
     (c \<in> set [9, 10, 11, 12, 13, 28, 29, 30, 31, 32, 133, 160, 5760, 8232, 8233, 8239,
               8287, 12288]
      \<or> (8192 \<le> c \<and> c \<le> 8202))"

definition strip :: "ustring \<Rightarrow> ustring" where
  "strip s = rev (dropWhile is_space (rev (dropWhile is_space s)))"

text \<open>Lines 117 to 127 of \<open>annotate_event\<close>: the new description from the old one and the
  rendered cost line.\<close>

definition merge_annotation :: "config \<Rightarrow> ustring \<Rightarrow> ustring \<Rightarrow> ustring" where
  "merge_annotation cfg cost_line desc =
     (if tag_pattern_search (cost_tag cfg) desc
      then tag_pattern_sub (cost_tag cfg) cost_line desc
      else if strip desc \<noteq> [] then cost_line @ [newline, newline] @ desc
      else cost_line)"

datatype cost_arg = LegacyCost int | CostDict cost_info

record patch_body =
  patch_description :: ustring
  meetingCost :: ustring
  invitedCost :: ustring
  effectiveCost :: ustring

text \<open>\<open>annotate_event\<close> up to the request it sends: the body of the patch, or the
  exception raised while building it.\<close>

definition annotate_event :: "config \<Rightarrow> event \<Rightarrow> cost_arg \<Rightarrow> exn + patch_body" where
  "annotate_event cfg ev cost =
     (let desc = (case description ev of None \<Rightarrow> [] | Some d \<Rightarrow> d)
      in case cost of
           LegacyCost c \<Rightarrow>
             Inr \<lparr>patch_description =
                    merge_annotation cfg
                      (cost_tag cfg @ ascii '': '' @ get_cost_display_format c) desc,
                  meetingCost = str_int c, invitedCost = str_int c, effectiveCost = str_int c\<rparr>
         | CostDict ci \<Rightarrow>
             (case create_dual_cost_display cfg ci of
                Inl e \<Rightarrow> Inl e
              | Inr cost_line \<Rightarrow>
                  Inr \<lparr>patch_description = merge_annotation cfg cost_line desc,
                       meetingCost = str_int (effective_cost ci),
                       invitedCost = str_int (invited_cost ci),
                       effectiveCost = str_int (effective_cost ci)\<rparr>))"

section \<open>Change tracking (calendar_service.py)\<close>

text \<open>
  The Calendar API is a collaborator: a calendar answers a listing request either by
  raising an exception, of which the model keeps the text \<^verbatim>\<open>str(e)\<close>, or with a page:
  its items, its \<open>nextPageToken\<close> and its \<open>nextSyncToken\<close>. A request is told apart by the
  sync token and the page token it carries; the time window of a full listing is left to
  the calendar.
\<close>

record request =
  req_syncToken :: "string option"
  req_pageToken :: "string option"

datatype response = Raises string | Responds "event list" "string option" "string option"

type_synonym calendar = "request \<Rightarrow> response"

text \<open>Truth of an optional string in a Python condition: present and not empty.\<close>

definition truthy :: "string option \<Rightarrow> bool" where
  "truthy t = (case t of None \<Rightarrow> False | Some x \<Rightarrow> x \<noteq> [])"

text \<open>The \<^verbatim>\<open>while True\<close> loop over the pages. It runs for as long as the calendar hands out
  page tokens, so its result is optional: \<open>None\<close> when it never returns.\<close>

partial_function (option) list_pages ::
  "calendar \<Rightarrow> request \<Rightarrow> event list \<Rightarrow> (string + event list \<times> string option) option" where
  "list_pages cal req events =
     (case cal req of
        Raises msg \<Rightarrow> Some (Inl msg)
      | Responds items page next_sync \<Rightarrow>
          if truthy page
          then list_pages cal (req\<lparr>req_pageToken := page\<rparr>) (events @ items)
          else Some (Inr (events @ items, next_sync)))"

text \<open>The test of the \<^verbatim>\<open>except\<close> clause on the text of the exception.\<close>

definition sync_token_stale :: "string \<Rightarrow> bool" where
  "sync_token_stale msg = (contains ''syncToken'' msg \<and> contains ''full sync'' (lower msg))"

definition first_request :: "string option \<Rightarrow> request" where
  "first_request sync_token =
     (if truthy sync_token then \<lparr>req_syncToken = sync_token, req_pageToken = None\<rparr>
      else \<lparr>req_syncToken = None, req_pageToken = None\<rparr>)"

text \<open>The result is the pair that the function returns, \<open>(None, None)\<close> being the sentinel,
  or the exception that leaves it.\<close>

definition list_changed_events ::
  "calendar \<Rightarrow> string option \<Rightarrow> (exn + event list option \<times> string option) option" where
  "list_changed_events cal sync_token =
     (case list_pages cal (first_request sync_token) [] of
        None \<Rightarrow> None
      | Some (Inl msg) \<Rightarrow>
          if sync_token_stale msg then Some (Inr (None, None))
          else Some (Inl (UpstreamError msg))
      | Some (Inr (events, next_sync)) \<Rightarrow> Some (Inr (Some events, next_sync)))"

section \<open>The driver (main.py)\<close>

text \<open>
  The collaborators of a run: the configuration, the calendar of each user, and the
  outcome of the patch request for a user, an event and a body (the text of the exception
  when it raises). The state of a run: the two counters, the lines printed for failed
  annotations (user, event, exception), the patches that went through, and the stored
  sync tokens.
\<close>

record env =
  env_config :: config
  calendar_of :: "string \<Rightarrow> calendar"
  patch_execute :: "string \<Rightarrow> string \<Rightarrow> patch_body \<Rightarrow> string option"

record run_state =
  processed :: nat
  skipped :: nat
  printed :: "(string \<times> string \<times> exn) list"
  patched :: "(string \<times> string \<times> patch_body) list"
  sync_tokens :: "string \<Rightarrow> string option"

text \<open>The body of the inner loop, for one event.\<close>

definition process_event :: "env \<Rightarrow> string \<Rightarrow> run_state \<Rightarrow> event \<Rightarrow> run_state" where
  "process_event e user st ev =
     (let cost = compute_meeting_cost (env_config e) None ev
      in if effective_cost cost < 0 then st\<lparr>skipped := skipped st + 1\<rparr>
         else
           (case annotate_event (env_config e) ev (CostDict cost) of
              Inl err \<Rightarrow> st\<lparr>printed := printed st @ [(user, event_id ev, err)]\<rparr>
            | Inr body \<Rightarrow>
                (case patch_execute e user (event_id ev) body of
                   Some msg \<Rightarrow>
                     st\<lparr>printed := printed st @ [(user, event_id ev, UpstreamError msg)]\<rparr>
                 | None \<Rightarrow>
                     st\<lparr>patched := patched st @ [(user, event_id ev, body)],
                        processed := processed st + 1\<rparr>)))"

definition process_events :: "env \<Rightarrow> string \<Rightarrow> run_state \<Rightarrow> event list \<Rightarrow> run_state" where
  "process_events e user st items = foldl (process_event e user) st items"

text \<open>A run ends by returning, or by an exception that leaves \<open>cron\<close>; the state is the one
  reached by then.\<close>

datatype outcome = Returned run_state | Raised exn run_state

text \<open>The listing of one user's changes, with the retry on the sentinel.\<close>

definition fetch_changes ::
  "calendar \<Rightarrow> string option \<Rightarrow> (exn + event list option \<times> string option) option" where
  "fetch_changes cal sync_token =
     (case list_changed_events cal sync_token of
        Some (Inr (None, None)) \<Rightarrow> list_changed_events cal None
      | r \<Rightarrow> r)"

text \<open>The body of the outer loop, for one user. Iterating over \<open>None\<close> raises \<open>TypeError\<close>.\<close>

definition process_user :: "env \<Rightarrow> run_state \<Rightarrow> string \<Rightarrow> (exn + run_state) option" where
  "process_user e st user =
     (case fetch_changes (calendar_of e user) (sync_tokens st user) of
        None \<Rightarrow> None
      | Some (Inl err) \<Rightarrow> Some (Inl err)
      | Some (Inr (None, next_token)) \<Rightarrow> Some (Inl TypeError)
      | Some (Inr (Some items, next_token)) \<Rightarrow>
          (let st' = process_events e user st items
           in if truthy next_token
              then Some (Inr (st'\<lparr>sync_tokens := (sync_tokens st')(user := next_token)\<rparr>))
              else Some (Inr st')))"

fun cron_loop :: "env \<Rightarrow> run_state \<Rightarrow> string list \<Rightarrow> outcome option" where
  "cron_loop e st [] = Some (Returned st)"
| "cron_loop e st (user # users) =
     (case process_user e st user of
        None \<Rightarrow> None
      | Some (Inl err) \<Rightarrow> Some (Raised err st)
      | Some (Inr st') \<Rightarrow> cron_loop e st' users)"

text \<open>The state in which a run starts, over the sync tokens stored by earlier runs.\<close>

definition start_state :: "(string \<Rightarrow> string option) \<Rightarrow> run_state" where
  "start_state stored =
     \<lparr>processed = 0, skipped = 0, printed = [], patched = [], sync_tokens = stored\<rparr>"

definition cron :: "env \<Rightarrow> (string \<Rightarrow> string option) \<Rightarrow> string list \<Rightarrow> outcome option" where
  "cron e stored users = cron_loop e (start_state stored) users"

section \<open>Reference definitions and fixtures\<close>

text \<open>Matching an email against the domain without regard to case on either side.\<close>

definition ends_with_domain_ignoring_case :: "string \<Rightarrow> string \<Rightarrow> bool" where
  "ends_with_domain_ignoring_case d e = suffix (lower (CHR ''@'' # d)) (lower e)"


text \<open>Some attendee with an email is not internal.\<close>

definition has_external :: "config \<Rightarrow> event \<Rightarrow> bool" where
  "has_external cfg ev = (\<exists>a \<in> set (emailed_attendees ev). \<not> is_internal cfg a)"

definition skip_reasons :: "string list" where
  "skip_reasons =
     [''no_duration'', ''mixed_meeting'', ''no_internal_attendees'', ''solo_meeting'',
      ''all_declined'', ''effective_solo_meeting'']"

text \<open>The two shapes of a result.\<close>

definition is_skip_shape :: "cost_info \<Rightarrow> bool" where
  "is_skip_shape r =
     (invited_cost r = - 1 \<and> effective_cost r = - 1
      \<and> (case skip_reason r of None \<Rightarrow> False | Some reason \<Rightarrow> reason \<in> set skip_reasons))"

definition is_qualifying_shape :: "cost_info \<Rightarrow> bool" where
  "is_qualifying_shape r =
     (0 \<le> invited_cost r \<and> 0 \<le> effective_cost r
      \<and> (case invited_count r of None \<Rightarrow> False | Some n \<Rightarrow> 2 \<le> n)
      \<and> (case effective_count r of None \<Rightarrow> False | Some n \<Rightarrow> 2 \<le> n)
      \<and> (case hours r of None \<Rightarrow> False | Some h \<Rightarrow> 0 < h)
      \<and> skip_reason r = None)"

text \<open>The defaults of \<open>config.py\<close>.\<close>

definition default_config :: config where
  "default_config =
     \<lparr>domain = ''hginsights.com'', default_rate = 125,
      cost_tag = ascii ''[[MEETING_COST]]'', internal_only = True\<rparr>"

definition invitee :: "string \<Rightarrow> string \<Rightarrow> attendee" where
  "invitee e status = \<lparr>email = Some e, responseStatus = Some status\<rparr>"

text \<open>A timed event of the given length in seconds, and a date-only event.\<close>

definition meeting :: "rat \<Rightarrow> attendee list \<Rightarrow> event" where
  "meeting seconds atts =
     \<lparr>event_id = ''evt1'', start_dateTime = Some 0, end_dateTime = Some seconds,
      attendees = atts, description = None\<rparr>"


definition alice :: attendee where
  "alice = invitee ''alice@hginsights.com'' ''accepted''"

definition bob :: attendee where
  "bob = invitee ''Bob@HGInsights.com'' ''tentative''"

definition carol :: attendee where
  "carol = \<lparr>email = Some ''carol@hginsights.com'', responseStatus = None\<rparr>"

definition dave :: attendee where
  "dave = invitee ''dave@hginsights.com'' ''declined''"



text \<open>Collaborators that never fail: every calendar answers with one empty page and no
  tokens, every patch goes through. No sync token is stored.\<close>

definition accepting_env :: "config \<Rightarrow> env" where
  "accepting_env cfg =
     \<lparr>env_config = cfg,
      calendar_of = (\<lambda>user req. Responds [] None None),
      patch_execute = (\<lambda>user ev body. None)\<rparr>"

definition no_tokens :: "string \<Rightarrow> string option" where
  "no_tokens user = None"





text \<open>Pieces of descriptions: the cost line for cost 250, the rest of a tag line that
  shows cost 125, some text before a block and some text after it.\<close>

definition cost_line_250 :: ustring where
  "cost_line_250 = ascii ''[[MEETING_COST]]: '' @ 128994 # ascii '' $250''"




text \<open>What a run reports: the two counters when \<open>cron\<close> returns, nothing when an exception
  leaves it; and the state a run ends in.\<close>

definition reported :: "outcome option \<Rightarrow> (nat \<times> nat) option" where
  "reported r =
     (case r of
        Some (Returned st) \<Rightarrow> Some (processed st, skipped st)
      | _ \<Rightarrow> None)"

definition final_state :: "outcome option \<Rightarrow> run_state option" where
  "final_state r =
     (case r of
        None \<Rightarrow> None
      | Some (Returned st) \<Rightarrow> Some st
      | Some (Raised err st) \<Rightarrow> Some st)"

text \<open>The three ways the inner loop deals with an event: it counts it as skipped, it
  writes the annotation, or the annotation fails.\<close>

definition is_skipped :: "env \<Rightarrow> event \<Rightarrow> bool" where
  "is_skipped e ev = (effective_cost (compute_meeting_cost (env_config e) None ev) < 0)"

definition annotation_fails :: "env \<Rightarrow> string \<Rightarrow> event \<Rightarrow> bool" where
  "annotation_fails e user ev =
     (\<not> is_skipped e ev
      \<and> (case annotate_event (env_config e) ev
                 (CostDict (compute_meeting_cost (env_config e) None ev)) of
            Inl err \<Rightarrow> True
          | Inr body \<Rightarrow> patch_execute e user (event_id ev) body \<noteq> None))"

definition is_written :: "env \<Rightarrow> string \<Rightarrow> event \<Rightarrow> bool" where
  "is_written e user ev = (\<not> is_skipped e ev \<and> \<not> annotation_fails e user ev)"

text \<open>Calendars: one that answers every listing with a single page holding the meeting of
  Alice and Bob and a sync token; one that refuses every request; one that rejects the
  sync token \<open>old-token\<close> and answers every other listing.\<close>

definition one_meeting_calendar :: calendar where
  "one_meeting_calendar req = Responds [meeting 3600 [alice, bob]] None (Some ''token-1'')"

definition refusing_calendar :: calendar where
  "refusing_calendar req = Raises ''401 Unauthorized''"

definition stale_calendar :: calendar where
  "stale_calendar req =
     (if req_syncToken req = Some ''old-token''
      then Raises ''410 events?syncToken=old-token: a full sync is required''
      else Responds [meeting 3600 [alice, bob]] None (Some ''fresh-token''))"

text \<open>Runs: one in which the first user's calendar refuses, one in which every patch is
  refused, and one in which the stored token has gone stale.\<close>

definition refused_user_env :: env where
  "refused_user_env =
     \<lparr>env_config = default_config,
      calendar_of = (\<lambda>user. if user = ''alice@hginsights.com'' then refusing_calendar
                             else one_meeting_calendar),
      patch_execute = (\<lambda>user ev body. None)\<rparr>"

definition refused_patch_env :: env where
  "refused_patch_env =
     \<lparr>env_config = default_config,
      calendar_of = (\<lambda>user. one_meeting_calendar),
      patch_execute = (\<lambda>user ev body. Some ''403 Forbidden'')\<rparr>"



section \<open>Rounding\<close>

lemma py_round_upper: "of_int (py_round x) \<le> x + 1 / 2"
  unfolding py_round_def Let_def by (auto; linarith)

lemma py_round_lower: "x - 1 / 2 \<le> of_int (py_round x)"
  unfolding py_round_def Let_def by (auto; linarith)

lemma py_round_of_int: "py_round (of_int n) = n"
  unfolding py_round_def Let_def by simp



lemma py_round_mono:
  assumes "x \<le> y"
  shows "py_round x \<le> py_round y"
proof (rule ccontr)
  assume "\<not> py_round x \<le> py_round y"
  then have "py_round y + 1 \<le> py_round x" by simp
  then have "(of_int (py_round y) :: rat) + 1 \<le> of_int (py_round x)"
    by (metis of_int_1 of_int_add of_int_le_iff)
  with py_round_upper [of x] py_round_lower [of y] assms have "x = y" by linarith
  with \<open>\<not> py_round x \<le> py_round y\<close> show False by simp
qed

lemma py_round_strict:
  assumes "x + 1 < y"
  shows "py_round x < py_round y"
proof -
  have "(of_int (py_round x) :: rat) < of_int (py_round y)"
    using py_round_upper [of x] py_round_lower [of y] assms by linarith
  then show ?thesis by simp
qed

lemma py_round_nonneg: "0 \<le> x \<Longrightarrow> 0 \<le> py_round x"
  using py_round_mono [of 0 x] by (simp add: py_round_def)

lemma py_round_scaled_strict:
  assumes k: "1 \<le> k" and mn: "m < (n::nat)"
  shows "py_round (k * of_nat m) < py_round (k * of_nat n)"
proof (cases "k * of_nat m + 1 < k * of_nat n")
  case True
  then show ?thesis by (rule py_round_strict)
next
  case False
  have d: "(1::rat) \<le> of_nat n - of_nat m" using mn
    by (metis Suc_leI le_diff_eq of_nat_1 of_nat_add of_nat_le_iff plus_1_eq_Suc)
  have "k * (of_nat n - of_nat m) \<le> 1" using False by (simp add: algebra_simps)
  moreover have "k \<le> k * (of_nat n - of_nat m)" using k d by simp
  ultimately have "k = 1" using k by linarith
  moreover have "py_round (of_nat m) = int m" "py_round (of_nat n) = int n"
    using py_round_of_int [of "int m"] py_round_of_int [of "int n"] by simp_all
  ultimately show ?thesis using mn by simp
qed

section \<open>The cost policy\<close>

lemma length_filter_eq_iff: "length (filter P xs) = length xs \<longleftrightarrow> (\<forall>x \<in> set xs. P x)"
proof (induction xs)
  case Nil
  then show ?case by simp
next
  case (Cons x xs)
  have "length (filter P xs) \<noteq> Suc (length xs)"
    using length_filter_le [of P xs] by linarith
  with Cons show ?case by auto
qed

lemma mixed_iff_has_external:
  "length (internal_attendees cfg ev) \<noteq> length (emailed_attendees ev) \<longleftrightarrow> has_external cfg ev"
  unfolding internal_attendees_def has_external_def by (simp add: length_filter_eq_iff)

lemma compute_meeting_cost_unfold:
  "compute_meeting_cost cfg rate ev =
     (if event_duration_hours ev \<le> 0 then skip_result ''no_duration''
      else if internal_only cfg \<and> has_external cfg ev then skip_result ''mixed_meeting''
      else if length (internal_attendees cfg ev) = 0 then skip_result ''no_internal_attendees''
      else if length (internal_attendees cfg ev) = 1 then skip_result ''solo_meeting''
      else if length (effective_attendees cfg ev) = 0 then skip_result ''all_declined''
      else if length (effective_attendees cfg ev) = 1 then skip_result ''effective_solo_meeting''
      else \<lparr>invited_cost =
               py_round (event_duration_hours ev * of_nat (length (internal_attendees cfg ev))
                         * hourly_rate_or_default cfg rate),
             effective_cost =
               py_round (event_duration_hours ev * of_nat (length (effective_attendees cfg ev))
                         * hourly_rate_or_default cfg rate),
             invited_count = Some (length (internal_attendees cfg ev)),
             effective_count = Some (length (effective_attendees cfg ev)),
             hours = Some (event_duration_hours ev),
             skip_reason = None\<rparr>)"
  unfolding mixed_iff_has_external [symmetric]
  unfolding compute_meeting_cost_def effective_attendees_def internal_attendees_def
    emailed_attendees_def Let_def
  by simp

lemma two_le_length: "xs \<noteq> [] \<Longrightarrow> length xs \<noteq> Suc 0 \<Longrightarrow> 2 \<le> length xs"
  by (cases xs) (auto simp: Suc_le_eq)

text \<open>A result without a skip reason is the qualifying record, and its event passed every
  check.\<close>

lemma qualifying_result:
  assumes "skip_reason (compute_meeting_cost cfg rate ev) = None"
  shows "0 < event_duration_hours ev"
    and "2 \<le> length (internal_attendees cfg ev)"
    and "2 \<le> length (effective_attendees cfg ev)"
    and "internal_only cfg \<longrightarrow> \<not> has_external cfg ev"
    and "compute_meeting_cost cfg rate ev =
           \<lparr>invited_cost =
              py_round (event_duration_hours ev * of_nat (length (internal_attendees cfg ev))
                        * hourly_rate_or_default cfg rate),
            effective_cost =
              py_round (event_duration_hours ev * of_nat (length (effective_attendees cfg ev))
                        * hourly_rate_or_default cfg rate),
            invited_count = Some (length (internal_attendees cfg ev)),
            effective_count = Some (length (effective_attendees cfg ev)),
            hours = Some (event_duration_hours ev),
            skip_reason = None\<rparr>"
  using assms unfolding compute_meeting_cost_unfold [of cfg rate ev] skip_result_def
  by (simp_all split: if_splits add: two_le_length)

lemma effective_le_internal:
  "length (effective_attendees cfg ev) \<le> length (internal_attendees cfg ev)"
  unfolding effective_attendees_def by (rule length_filter_le)

lemma internal_le_emailed:
  "length (internal_attendees cfg ev) \<le> length (emailed_attendees ev)"
  unfolding internal_attendees_def by (rule length_filter_le)

text \<open>
  C9. The claim: an attendee is internal exactly when the email ends, without regard to
  case on either side, with \<open>@\<close> and the organization domain. The function lowers the
  email only, so with the domain configured as \<open>HGInsights.com\<close> the address
  \<open>alice@hginsights.com\<close> is not internal, although it ends with the domain when case is
  ignored on both sides.
\<close>

theorem internal_email_mixed_case_domain:
  "\<not> internal_email (default_config\<lparr>domain := ''HGInsights.com''\<rparr>) ''alice@hginsights.com''
   \<and> ends_with_domain_ignoring_case ''HGInsights.com'' ''alice@hginsights.com''"
  by code_simp

text \<open>With a domain written in lower case the two agree on every email.\<close>

lemma internal_email_lower_case_domain:
  assumes "lower (domain cfg) = domain cfg"
  shows "internal_email cfg e = ends_with_domain_ignoring_case (domain cfg) e"
proof -
  have "lower (CHR ''@'' # domain cfg) = CHR ''@'' # domain cfg"
    using assms by (simp add: lower_def lower_char_def)
  then show ?thesis
    unfolding internal_email_def ends_with_domain_ignoring_case_def by simp
qed






text \<open>
  C1, as amended. For a hourly rate that is not negative, a qualifying result has
  effective_count \<open>\<le>\<close> invited_count \<open>\<le>\<close> the number of attendees with an email, and
  effective_cost \<open>\<le>\<close> invited_cost; equal counts give equal costs; and when an hour of one
  attendee costs at least one currency unit, equal costs give equal counts.
\<close>

theorem costs_and_counts_ordered:
  assumes "skip_reason (compute_meeting_cost cfg rate ev) = None"
    and "0 \<le> hourly_rate_or_default cfg rate"
  shows "invited_count (compute_meeting_cost cfg rate ev)
           = Some (length (internal_attendees cfg ev))
   \<and> effective_count (compute_meeting_cost cfg rate ev)
           = Some (length (effective_attendees cfg ev))
   \<and> length (effective_attendees cfg ev) \<le> length (internal_attendees cfg ev)
   \<and> length (internal_attendees cfg ev) \<le> length (emailed_attendees ev)
   \<and> effective_cost (compute_meeting_cost cfg rate ev)
        \<le> invited_cost (compute_meeting_cost cfg rate ev)
   \<and> (length (effective_attendees cfg ev) = length (internal_attendees cfg ev) \<longrightarrow>
        effective_cost (compute_meeting_cost cfg rate ev)
          = invited_cost (compute_meeting_cost cfg rate ev))
   \<and> (1 \<le> event_duration_hours ev * hourly_rate_or_default cfg rate
        \<and> effective_cost (compute_meeting_cost cfg rate ev)
            = invited_cost (compute_meeting_cost cfg rate ev) \<longrightarrow>
        length (effective_attendees cfg ev) = length (internal_attendees cfg ev))"
proof -
  define h where "h = event_duration_hours ev"
  define r where "r = hourly_rate_or_default cfg rate"
  define n where "n = length (internal_attendees cfg ev)"
  define m where "m = length (effective_attendees cfg ev)"
  note q = qualifying_result(5) [OF assms(1)]
  have h0: "0 < h" unfolding h_def by (rule qualifying_result(1) [OF assms(1)])
  have r0: "0 \<le> r" unfolding r_def by (rule assms(2))
  have mn: "m \<le> n" unfolding m_def n_def by (rule effective_le_internal)
  have ic: "invited_cost (compute_meeting_cost cfg rate ev) = py_round (h * of_nat n * r)"
    unfolding h_def n_def r_def by (subst q) simp
  have ec: "effective_cost (compute_meeting_cost cfg rate ev) = py_round (h * of_nat m * r)"
    unfolding h_def m_def r_def by (subst q) simp
  have cnt: "invited_count (compute_meeting_cost cfg rate ev) = Some n"
    "effective_count (compute_meeting_cost cfg rate ev) = Some m"
    unfolding n_def m_def by (subst q, simp)+
  have "h * of_nat m * r \<le> h * of_nat n * r"
    using mn h0 r0 by (simp add: mult_left_mono mult_right_mono)
  then have le: "py_round (h * of_nat m * r) \<le> py_round (h * of_nat n * r)"
    by (rule py_round_mono)
  have conv: "m = n" if k: "1 \<le> h * r"
    and eq: "py_round (h * of_nat m * r) = py_round (h * of_nat n * r)"
  proof (rule ccontr)
    assume "m \<noteq> n"
    with mn have "m < n" by simp
    from py_round_scaled_strict [OF k this]
    have "py_round (h * of_nat m * r) < py_round (h * of_nat n * r)"
      by (simp add: mult.commute mult.left_commute)
    with eq show False by simp
  qed
  show ?thesis
    unfolding ic ec cnt
    unfolding h_def [symmetric] r_def [symmetric] n_def [symmetric] m_def [symmetric]
    using le mn conv internal_le_emailed [of cfg ev] unfolding n_def by auto
qed

theorem costs_and_counts_ordered_witness:
  "skip_reason (compute_meeting_cost default_config None (meeting 7200 [alice, dave, carol]))
     = None
   \<and> 0 \<le> hourly_rate_or_default default_config None
   \<and> 1 \<le> event_duration_hours (meeting 7200 [alice, dave, carol])
            * hourly_rate_or_default default_config None
   \<and> invited_count (compute_meeting_cost default_config None (meeting 7200 [alice, dave, carol]))
       = Some 3
   \<and> effective_count
         (compute_meeting_cost default_config None (meeting 7200 [alice, dave, carol]))
       = Some 2
   \<and> effective_cost (compute_meeting_cost default_config None (meeting 7200 [alice, dave, carol]))
       \<le> invited_cost
            (compute_meeting_cost default_config None (meeting 7200 [alice, dave, carol]))
   \<and> effective_cost (compute_meeting_cost default_config None (meeting 7200 [alice, dave, carol]))
       = 500
   \<and> invited_cost (compute_meeting_cost default_config None (meeting 7200 [alice, dave, carol]))
       = 750"
proof -
  have h: "skip_reason
      (compute_meeting_cost default_config None (meeting 7200 [alice, dave, carol])) = None"
    by code_simp
  have r: "0 \<le> hourly_rate_or_default default_config None" by code_simp
  have k: "1 \<le> event_duration_hours (meeting 7200 [alice, dave, carol])
            * hourly_rate_or_default default_config None"
    by code_simp
  have n: "length (internal_attendees default_config (meeting 7200 [alice, dave, carol])) = 3"
    "length (effective_attendees default_config (meeting 7200 [alice, dave, carol])) = 2"
    by code_simp+
  have v: "effective_cost
      (compute_meeting_cost default_config None (meeting 7200 [alice, dave, carol])) = 500"
    "invited_cost
      (compute_meeting_cost default_config None (meeting 7200 [alice, dave, carol])) = 750"
    by code_simp+
  from costs_and_counts_ordered [OF h r] n
  have "invited_count
      (compute_meeting_cost default_config None (meeting 7200 [alice, dave, carol])) = Some 3"
    "effective_count
      (compute_meeting_cost default_config None (meeting 7200 [alice, dave, carol])) = Some 2"
    "effective_cost (compute_meeting_cost default_config None (meeting 7200 [alice, dave, carol]))
       \<le> invited_cost
            (compute_meeting_cost default_config None (meeting 7200 [alice, dave, carol]))"
    by simp_all
  with h r k v show ?thesis by blast
qed

text \<open>
  C1, the claim as written. A meeting of ten seconds with three internal attendees, one of
  whom declined, qualifies at rate 125 with both costs equal to 1 although the counts are
  3 and 2. With the rate argument -125 a meeting of one hour with the same attendees has
  invited_cost -375 and effective_cost -250.
\<close>

theorem equal_costs_unequal_counts_counterexample:
  "skip_reason (compute_meeting_cost default_config None (meeting 10 [alice, bob, dave])) = None
   \<and> invited_cost (compute_meeting_cost default_config None (meeting 10 [alice, bob, dave])) = 1
   \<and> effective_cost (compute_meeting_cost default_config None (meeting 10 [alice, bob, dave])) = 1
   \<and> invited_count (compute_meeting_cost default_config None (meeting 10 [alice, bob, dave]))
       = Some 3
   \<and> effective_count (compute_meeting_cost default_config None (meeting 10 [alice, bob, dave]))
       = Some 2
   \<and> skip_reason (compute_meeting_cost default_config (Some (- 125))
         (meeting 3600 [alice, bob, dave])) = None
   \<and> invited_cost (compute_meeting_cost default_config (Some (- 125))
         (meeting 3600 [alice, bob, dave])) = - 375
   \<and> effective_cost (compute_meeting_cost default_config (Some (- 125))
         (meeting 3600 [alice, bob, dave])) = - 250"
  by code_simp

text \<open>
  C10, as amended. For a hourly rate that is not negative every result has exactly one of
  the two shapes, and its effective cost is negative exactly when it is a skip; and with a
  default rate that is not negative the driver counts an event as skipped, and does
  nothing else with it, exactly when its result is a skip.
\<close>

theorem result_shapes:
  "(0 \<le> hourly_rate_or_default cfg rate \<longrightarrow>
      (is_skip_shape (compute_meeting_cost cfg rate ev)
         \<noteq> is_qualifying_shape (compute_meeting_cost cfg rate ev))
      \<and> (effective_cost (compute_meeting_cost cfg rate ev) < 0
           \<longleftrightarrow> is_skip_shape (compute_meeting_cost cfg rate ev)))
   \<and> (0 \<le> default_rate (env_config e) \<longrightarrow>
        (process_event e user st ev = st\<lparr>skipped := skipped st + 1\<rparr>
           \<longleftrightarrow> is_skip_shape (compute_meeting_cost (env_config e) None ev)))"
proof -
  have shapes: "(is_skip_shape (compute_meeting_cost c ra ev)
         \<noteq> is_qualifying_shape (compute_meeting_cost c ra ev))
      \<and> (effective_cost (compute_meeting_cost c ra ev) < 0
           \<longleftrightarrow> is_skip_shape (compute_meeting_cost c ra ev))"
    if r0: "0 \<le> hourly_rate_or_default c ra" for c ra
  proof (cases "skip_reason (compute_meeting_cost c ra ev)")
    case None
    note q = qualifying_result [OF None]
    have h0: "0 < event_duration_hours ev" by (rule q(1))
    have "0 \<le> event_duration_hours ev * of_nat (length (internal_attendees c ev))
             * hourly_rate_or_default c ra"
      using h0 r0 by simp
    then have i: "0 \<le> invited_cost (compute_meeting_cost c ra ev)"
      by (subst q(5)) (simp add: py_round_nonneg)
    have "0 \<le> event_duration_hours ev * of_nat (length (effective_attendees c ev))
             * hourly_rate_or_default c ra"
      using h0 r0 by simp
    then have e: "0 \<le> effective_cost (compute_meeting_cost c ra ev)"
      by (subst q(5)) (simp add: py_round_nonneg)
    have cnt: "invited_count (compute_meeting_cost c ra ev)
          = Some (length (internal_attendees c ev))"
      "effective_count (compute_meeting_cost c ra ev)
          = Some (length (effective_attendees c ev))"
      "hours (compute_meeting_cost c ra ev) = Some (event_duration_hours ev)"
      by (subst q(5), simp)+
    have "is_qualifying_shape (compute_meeting_cost c ra ev)"
      unfolding is_qualifying_shape_def using i e None q(1-3) by (simp add: cnt)
    moreover have "\<not> is_skip_shape (compute_meeting_cost c ra ev)"
      unfolding is_skip_shape_def using None by simp
    ultimately show ?thesis using e by simp
  next
    case (Some reason)
    then have "compute_meeting_cost c ra ev = skip_result reason \<and> reason \<in> set skip_reasons"
      unfolding compute_meeting_cost_unfold [of c ra ev] skip_result_def skip_reasons_def
      by (auto split: if_splits)
    then show ?thesis
      unfolding is_skip_shape_def is_qualifying_shape_def
      by (auto simp: skip_result_def)
  qed
  have driver: "process_event e user st ev = st\<lparr>skipped := skipped st + 1\<rparr>
           \<longleftrightarrow> is_skip_shape (compute_meeting_cost (env_config e) None ev)"
    if "0 \<le> default_rate (env_config e)"
  proof -
    from that have "0 \<le> hourly_rate_or_default (env_config e) None"
      by (simp add: hourly_rate_or_default_def)
    note s = shapes [OF this]
    show ?thesis
    proof (cases "effective_cost (compute_meeting_cost (env_config e) None ev) < 0")
      case True
      then show ?thesis using s by (simp add: process_event_def Let_def)
    next
      case False
      then have "skipped (process_event e user st ev) = skipped st"
        by (simp add: process_event_def Let_def split: sum.splits option.splits)
      then have "process_event e user st ev \<noteq> st\<lparr>skipped := skipped st + 1\<rparr>"
        by (metis Suc_eq_plus1 n_not_Suc_n run_state.select_convs(2)
            run_state.surjective run_state.update_convs(2))
      with False s show ?thesis by simp
    qed
  qed
  from shapes driver show ?thesis by blast
qed

theorem result_shapes_witness:
  "0 \<le> hourly_rate_or_default default_config None
   \<and> 0 \<le> default_rate (env_config (accepting_env default_config))
   \<and> is_skip_shape (compute_meeting_cost default_config None (meeting 3600 [alice]))
   \<and> \<not> is_qualifying_shape (compute_meeting_cost default_config None (meeting 3600 [alice]))
   \<and> effective_cost (compute_meeting_cost default_config None (meeting 3600 [alice])) < 0
   \<and> process_event (accepting_env default_config) ''alice@hginsights.com''
         (start_state no_tokens) (meeting 3600 [alice])
       = (start_state no_tokens)\<lparr>skipped := skipped (start_state no_tokens) + 1\<rparr>"
proof -
  have r: "0 \<le> hourly_rate_or_default default_config None" by code_simp
  have d: "0 \<le> default_rate (env_config (accepting_env default_config))" by code_simp
  have c: "env_config (accepting_env default_config) = default_config"
    by (simp add: accepting_env_def)
  have s: "is_skip_shape (compute_meeting_cost default_config None (meeting 3600 [alice]))"
    by code_simp
  note t = result_shapes [of default_config None "meeting 3600 [alice]"
      "accepting_env default_config" "''alice@hginsights.com''" "start_state no_tokens"]
  from t r s have
    "\<not> is_qualifying_shape (compute_meeting_cost default_config None (meeting 3600 [alice]))"
    "effective_cost (compute_meeting_cost default_config None (meeting 3600 [alice])) < 0"
    by blast+
  moreover from t d s have
    "process_event (accepting_env default_config) ''alice@hginsights.com''
         (start_state no_tokens) (meeting 3600 [alice])
       = (start_state no_tokens)\<lparr>skipped := skipped (start_state no_tokens) + 1\<rparr>"
    unfolding c by blast
  ultimately show ?thesis using r d s by blast
qed

text \<open>
  C10, the claim as written. With the rate argument -125 a meeting of one hour with two
  internal attendees who accepted is not skipped and has both costs -250: the result has
  neither shape. With -125 as the default rate the driver counts that event as skipped
  and writes nothing.
\<close>

theorem negative_rate_shape_counterexample:
  "skip_reason (compute_meeting_cost default_config (Some (- 125)) (meeting 3600 [alice, bob]))
     = None
   \<and> invited_cost (compute_meeting_cost default_config (Some (- 125))
        (meeting 3600 [alice, bob])) = - 250
   \<and> effective_cost (compute_meeting_cost default_config (Some (- 125))
        (meeting 3600 [alice, bob])) = - 250
   \<and> \<not> is_skip_shape (compute_meeting_cost default_config (Some (- 125))
        (meeting 3600 [alice, bob]))
   \<and> \<not> is_qualifying_shape (compute_meeting_cost default_config (Some (- 125))
        (meeting 3600 [alice, bob]))
   \<and> skipped (process_event (accepting_env (default_config\<lparr>default_rate := - 125\<rparr>))
        ''alice@hginsights.com'' (start_state no_tokens) (meeting 3600 [alice, bob])) = 1
   \<and> patched (process_event (accepting_env (default_config\<lparr>default_rate := - 125\<rparr>))
        ''alice@hginsights.com'' (start_state no_tokens) (meeting 3600 [alice, bob])) = []"
  by code_simp

section \<open>The tag pattern\<close>

lemma ascii_colon: "ascii '':'' = [58]"
  by (simp add: ascii_def)





















section \<open>The cost line\<close>









section \<open>Merging the annotation into a description\<close>









lemma cost_of_alice_and_bob:
  "compute_meeting_cost default_config None (meeting 3600 [alice, bob])
     = \<lparr>invited_cost = 250, effective_cost = 250, invited_count = Some 2,
        effective_count = Some 2, hours = Some 1, skip_reason = None\<rparr>"
  by code_simp

lemma cost_line_of_alice_and_bob:
  "create_dual_cost_display default_config
     \<lparr>invited_cost = 250, effective_cost = 250, invited_count = Some 2,
        effective_count = Some 2, hours = Some 1, skip_reason = None\<rparr>
   = Inr (ascii ''[[MEETING_COST]]: '' @ 128994 # ascii '' $250'')"
  by (simp add: create_dual_cost_display_def default_config_def get_cost_display_format_def
      format_commas_def group_thousands.simps str_nat.simps digit_char_def ascii_def)

lemma str_int_250: "str_int 250 = ascii ''250''"
  by (simp add: str_int_def str_nat.simps digit_char_def ascii_def)





section \<open>Change tracking\<close>

lemma list_pages_raises_first:
  "cal req = Raises msg \<Longrightarrow> list_pages cal req events = Some (Inl msg)"
  by (subst list_pages.simps) simp

lemma list_pages_last_page:
  "cal req = Responds items page next_sync \<Longrightarrow> \<not> truthy page \<Longrightarrow>
     list_pages cal req events = Some (Inr (events @ items, next_sync))"
  by (subst list_pages.simps) simp



lemma list_changed_events_propagates:
  "list_pages cal (first_request tok) [] = Some (Inl msg) \<Longrightarrow> \<not> sync_token_stale msg \<Longrightarrow>
     list_changed_events cal tok = Some (Inl (UpstreamError msg))"
  unfolding list_changed_events_def by simp




section \<open>The driver\<close>

lemma process_event_effect:
  "processed (process_event e user st ev)
     = processed st + (if is_written e user ev then 1 else 0)"
  "skipped (process_event e user st ev) = skipped st + (if is_skipped e ev then 1 else 0)"
  "length (printed (process_event e user st ev))
     = length (printed st) + (if annotation_fails e user ev then 1 else 0)"
  by (auto simp: process_event_def Let_def is_written_def is_skipped_def annotation_fails_def
      split: sum.splits option.splits)

lemma process_events_effect:
  "processed (process_events e user st items)
     = processed st + length (filter (is_written e user) items)
   \<and> skipped (process_events e user st items)
     = skipped st + length (filter (is_skipped e) items)
   \<and> length (printed (process_events e user st items))
     = length (printed st) + length (filter (annotation_fails e user) items)"
  unfolding process_events_def
proof (induction items arbitrary: st)
  case Nil
  then show ?case by simp
next
  case (Cons ev items)
  show ?case
    using Cons.IH [of "process_event e user st ev"]
    by (simp add: process_event_effect)
qed

lemma process_events_append:
  "process_events e user st (before @ ev # rest)
     = process_events e user (process_event e user (process_events e user st before) ev) rest"
  by (simp add: process_events_def)

lemma process_event_failed_patch:
  assumes "\<not> is_skipped e ev"
    and "annotate_event (env_config e) ev
           (CostDict (compute_meeting_cost (env_config e) None ev)) = Inr body"
    and "patch_execute e user (event_id ev) body = Some msg"
  shows "process_event e user st ev
           = st\<lparr>printed := printed st @ [(user, event_id ev, UpstreamError msg)]\<rparr>"
  using assms by (simp add: process_event_def Let_def is_skipped_def)

lemma process_event_written:
  assumes "\<not> is_skipped e ev"
    and "annotate_event (env_config e) ev
           (CostDict (compute_meeting_cost (env_config e) None ev)) = Inr body"
    and "patch_execute e user (event_id ev) body = None"
  shows "process_event e user st ev
           = st\<lparr>patched := patched st @ [(user, event_id ev, body)],
                processed := processed st + 1\<rparr>"
  using assms by (simp add: process_event_def Let_def is_skipped_def)

lemma process_user_returns:
  assumes "fetch_changes (calendar_of e user) (sync_tokens st user) = Some (Inr (Some items, nxt))"
  shows "\<exists>st'. process_user e st user = Some (Inr st')"
  using assms unfolding process_user_def by (simp add: Let_def)

lemma cron_loop_returns:
  assumes "\<forall>u \<in> set users. \<forall>tok. \<exists>items nxt.
             fetch_changes (calendar_of e u) tok = Some (Inr (Some items, nxt))"
  shows "\<exists>st'. cron_loop e st users = Some (Returned st')"
  using assms
proof (induction users arbitrary: st)
  case Nil
  then show ?case by simp
next
  case (Cons u users)
  from Cons.prems obtain items nxt
    where "fetch_changes (calendar_of e u) (sync_tokens st u) = Some (Inr (Some items, nxt))"
    by (metis list.set_intros(1))
  from process_user_returns [OF this] obtain st'
    where u: "process_user e st u = Some (Inr st')" by blast
  from Cons.prems have "\<forall>u \<in> set users. \<forall>tok. \<exists>items nxt.
             fetch_changes (calendar_of e u) tok = Some (Inr (Some items, nxt))"
    by simp
  from Cons.IH [OF this, of st'] show ?case by (simp add: u)
qed

lemma cron_loop_append:
  "cron_loop e st before = Some (Returned st') \<Longrightarrow>
     cron_loop e st (before @ users) = cron_loop e st' users"
proof (induction before arbitrary: st)
  case Nil
  then show ?case by simp
next
  case (Cons u before)
  then show ?case
    by (cases "process_user e st u") (auto split: sum.splits)
qed

lemma process_user_upstream_failure:
  assumes "calendar_of e user (first_request (sync_tokens st user)) = Raises msg"
    and "\<not> sync_token_stale msg"
  shows "process_user e st user = Some (Inl (UpstreamError msg))"
proof -
  have "list_changed_events (calendar_of e user) (sync_tokens st user)
      = Some (Inl (UpstreamError msg))"
    using list_pages_raises_first [of "calendar_of e user"
        "first_request (sync_tokens st user)" msg "[]"] assms
    by (simp add: list_changed_events_propagates)
  then show ?thesis by (simp add: process_user_def fetch_changes_def)
qed

subsection \<open>The fixtures\<close>

lemma stale_message:
  "sync_token_stale ''410 events?syncToken=old-token: a full sync is required''"
  by code_simp

lemma unauthorized_message: "\<not> sync_token_stale ''401 Unauthorized''"
  by code_simp

lemma list_stale_calendar_old:
  "list_changed_events stale_calendar (Some ''old-token'') = Some (Inr (None, None))"
proof -
  have "stale_calendar (first_request (Some ''old-token''))
      = Raises ''410 events?syncToken=old-token: a full sync is required''"
    by (simp add: stale_calendar_def first_request_def truthy_def)
  with list_pages_raises_first [of stale_calendar "first_request (Some ''old-token'')"
      "''410 events?syncToken=old-token: a full sync is required''" "[]"]
  show ?thesis
    by (simp add: list_changed_events_def stale_message)
qed


lemma list_one_meeting_calendar:
  "list_changed_events one_meeting_calendar tok
     = Some (Inr (Some [meeting 3600 [alice, bob]], Some ''token-1''))"
proof -
  have "one_meeting_calendar (first_request tok)
      = Responds [meeting 3600 [alice, bob]] None (Some ''token-1'')"
    by (simp add: one_meeting_calendar_def)
  with list_pages_last_page [of one_meeting_calendar "first_request tok"
      "[meeting 3600 [alice, bob]]" None "Some ''token-1''" "[]"]
  show ?thesis
    by (simp add: list_changed_events_def truthy_def)
qed

lemma fetch_one_meeting_calendar:
  "fetch_changes one_meeting_calendar tok
     = Some (Inr (Some [meeting 3600 [alice, bob]], Some ''token-1''))"
  by (simp add: fetch_changes_def list_one_meeting_calendar)

lemma annotate_alice_and_bob:
  "annotate_event default_config (meeting 3600 [alice, bob])
     (CostDict (compute_meeting_cost default_config None (meeting 3600 [alice, bob])))
   = Inr \<lparr>patch_description = cost_line_250, meetingCost = ascii ''250'',
           invitedCost = ascii ''250'', effectiveCost = ascii ''250''\<rparr>"
proof -
  have "merge_annotation default_config cost_line_250 [] = cost_line_250"
    by (simp add: merge_annotation_def tag_pattern_search_def strip_def ascii_colon)
  then show ?thesis
    unfolding cost_of_alice_and_bob annotate_event_def
    by (simp add: cost_line_of_alice_and_bob meeting_def str_int_250 cost_line_250_def)
qed

lemma alice_and_bob_not_skipped:
  "env_config e = default_config \<Longrightarrow> \<not> is_skipped e (meeting 3600 [alice, bob])"
  by (simp add: is_skipped_def cost_of_alice_and_bob)

lemma event_id_meeting: "event_id (meeting seconds atts) = ''evt1''"
  by (simp add: meeting_def)



text \<open>
  C7, as amended. A fatal failure for one user ends the run: when the calendar raises on
  the user's first request an exception that is not the stale-cursor one, processing that
  user raises it; and when the users before have been processed and processing the next
  one raises, \<open>cron\<close> raises that exception, whatever users come after, and reports
  nothing.
\<close>

theorem user_failure_ends_run:
  "(calendar_of e user (first_request (sync_tokens st' user)) = Raises msg
      \<and> \<not> sync_token_stale msg
      \<longrightarrow> process_user e st' user = Some (Inl (UpstreamError msg)))
   \<and> (cron_loop e st before = Some (Returned st') \<and> process_user e st' user = Some (Inl err)
      \<longrightarrow> cron_loop e st (before @ user # rest) = Some (Raised err st')
          \<and> reported (cron_loop e st (before @ user # rest)) = None)"
proof -
  have a: "process_user e st' user = Some (Inl (UpstreamError msg))"
    if "calendar_of e user (first_request (sync_tokens st' user)) = Raises msg"
      and "\<not> sync_token_stale msg"
    using that by (rule process_user_upstream_failure)
  have b: "cron_loop e st (before @ user # rest) = Some (Raised err st')
          \<and> reported (cron_loop e st (before @ user # rest)) = None"
    if "cron_loop e st before = Some (Returned st')"
      and "process_user e st' user = Some (Inl err)"
    using cron_loop_append [OF that(1), of "user # rest"] that(2)
    by (simp add: reported_def)
  from a b show ?thesis by blast
qed

theorem user_failure_ends_run_witness:
  "calendar_of refused_user_env ''alice@hginsights.com''
       (first_request (sync_tokens (start_state no_tokens) ''alice@hginsights.com''))
     = Raises ''401 Unauthorized''
   \<and> \<not> sync_token_stale ''401 Unauthorized''
   \<and> cron_loop refused_user_env (start_state no_tokens) [] = Some (Returned (start_state no_tokens))
   \<and> process_user refused_user_env (start_state no_tokens) ''alice@hginsights.com''
       = Some (Inl (UpstreamError ''401 Unauthorized''))
   \<and> cron_loop refused_user_env (start_state no_tokens)
         ([] @ ''alice@hginsights.com'' # [''bob@hginsights.com''])
       = Some (Raised (UpstreamError ''401 Unauthorized'') (start_state no_tokens))"
proof -
  have r: "calendar_of refused_user_env ''alice@hginsights.com''
       (first_request (sync_tokens (start_state no_tokens) ''alice@hginsights.com''))
     = Raises ''401 Unauthorized''"
    by (simp add: refused_user_env_def refusing_calendar_def)
  have n: "cron_loop refused_user_env (start_state no_tokens) []
      = Some (Returned (start_state no_tokens))"
    by simp
  note t = user_failure_ends_run [of refused_user_env "''alice@hginsights.com''"
      "start_state no_tokens" "''401 Unauthorized''" "start_state no_tokens" "[]"
      "UpstreamError ''401 Unauthorized''" "[''bob@hginsights.com'']"]
  have p: "process_user refused_user_env (start_state no_tokens) ''alice@hginsights.com''
       = Some (Inl (UpstreamError ''401 Unauthorized''))"
    using t r unauthorized_message by blast
  have c: "cron_loop refused_user_env (start_state no_tokens)
         ([] @ ''alice@hginsights.com'' # [''bob@hginsights.com''])
       = Some (Raised (UpstreamError ''401 Unauthorized'') (start_state no_tokens))"
    using t n p by blast
  from r unauthorized_message n p c show ?thesis by (intro conjI)
qed

text \<open>
  C7, the claim as written. Alice's calendar answers every request with
  \<open>401 Unauthorized\<close>; Bob's holds one meeting that qualifies. The run over Alice and Bob
  ends with that exception in the state in which it started, so nothing was done for Bob,
  and it reports nothing; the run over Bob alone reports one processed event.
\<close>

theorem batch_aborted_counterexample:
  "cron refused_user_env no_tokens [''alice@hginsights.com'', ''bob@hginsights.com'']
     = Some (Raised (UpstreamError ''401 Unauthorized'') (start_state no_tokens))
   \<and> reported (cron refused_user_env no_tokens
         [''alice@hginsights.com'', ''bob@hginsights.com'']) = None
   \<and> reported (cron refused_user_env no_tokens [''bob@hginsights.com'']) = Some (1, 0)"
proof -
  have "calendar_of refused_user_env ''alice@hginsights.com''
       (first_request (sync_tokens (start_state no_tokens) ''alice@hginsights.com''))
     = Raises ''401 Unauthorized''"
    by (simp add: refused_user_env_def refusing_calendar_def)
  from process_user_upstream_failure [OF this unauthorized_message]
  have a: "cron refused_user_env no_tokens [''alice@hginsights.com'', ''bob@hginsights.com'']
     = Some (Raised (UpstreamError ''401 Unauthorized'') (start_state no_tokens))"
    by (simp add: cron_def)
  have c: "calendar_of refused_user_env ''bob@hginsights.com'' = one_meeting_calendar"
    "env_config refused_user_env = default_config"
    by (simp_all add: refused_user_env_def)
  have "annotate_event (env_config refused_user_env) (meeting 3600 [alice, bob])
         (CostDict (compute_meeting_cost (env_config refused_user_env) None
            (meeting 3600 [alice, bob])))
       = Inr \<lparr>patch_description = cost_line_250, meetingCost = ascii ''250'',
               invitedCost = ascii ''250'', effectiveCost = ascii ''250''\<rparr>"
    unfolding c by (rule annotate_alice_and_bob)
  moreover have "patch_execute refused_user_env ''bob@hginsights.com''
         (event_id (meeting 3600 [alice, bob]))
         \<lparr>patch_description = cost_line_250, meetingCost = ascii ''250'',
           invitedCost = ascii ''250'', effectiveCost = ascii ''250''\<rparr> = None"
    by (simp add: refused_user_env_def)
  ultimately have "process_event refused_user_env ''bob@hginsights.com''
      (start_state no_tokens) (meeting 3600 [alice, bob])
      = (start_state no_tokens)
          \<lparr>patched := patched (start_state no_tokens)
             @ [(''bob@hginsights.com'', event_id (meeting 3600 [alice, bob]),
                 \<lparr>patch_description = cost_line_250, meetingCost = ascii ''250'',
                  invitedCost = ascii ''250'', effectiveCost = ascii ''250''\<rparr>)],
           processed := processed (start_state no_tokens) + 1\<rparr>"
    by (rule process_event_written [OF alice_and_bob_not_skipped [OF c(2)]])
  then have "reported (cron refused_user_env no_tokens [''bob@hginsights.com'']) = Some (1, 0)"
    by (simp add: cron_def process_user_def c fetch_one_meeting_calendar process_events_def
        truthy_def reported_def start_state_def)
  with a show ?thesis by (simp add: reported_def)
qed

text \<open>
  C8, as amended. When the patch of an event raises, the exception is caught: a line is
  printed for it, neither counter changes, and the loop goes on with the events after it.
  Over a list of events the processed counter grows by the number of events that were
  written, the skipped counter by the number that were skipped, and one line is printed
  for each event whose annotation failed. Whatever the patches do, a run returns when the
  listing of every user returns.
\<close>

theorem annotation_failure_is_local:
  "(\<not> is_skipped e ev
      \<and> annotate_event (env_config e) ev
            (CostDict (compute_meeting_cost (env_config e) None ev)) = Inr body
      \<and> patch_execute e user (event_id ev) body = Some msg
      \<longrightarrow> process_event e user st ev
            = st\<lparr>printed := printed st @ [(user, event_id ev, UpstreamError msg)]\<rparr>)
   \<and> process_events e user st (before @ ev # rest)
       = process_events e user (process_event e user (process_events e user st before) ev) rest
   \<and> processed (process_events e user st items)
       = processed st + length (filter (is_written e user) items)
   \<and> skipped (process_events e user st items)
       = skipped st + length (filter (is_skipped e) items)
   \<and> length (printed (process_events e user st items))
       = length (printed st) + length (filter (annotation_fails e user) items)
   \<and> ((\<forall>u \<in> set users. \<forall>tok. \<exists>its nxt.
          fetch_changes (calendar_of e u) tok = Some (Inr (Some its, nxt)))
        \<longrightarrow> (\<exists>st'. cron_loop e st users = Some (Returned st')))"
  using process_event_failed_patch [of e ev body user msg st]
    process_events_append [of e user st before ev rest]
    process_events_effect [of e user st items]
    cron_loop_returns [of users e st]
  by blast

theorem annotation_failure_is_local_witness:
  "\<not> is_skipped refused_patch_env (meeting 3600 [alice, bob])
   \<and> annotate_event (env_config refused_patch_env) (meeting 3600 [alice, bob])
         (CostDict (compute_meeting_cost (env_config refused_patch_env) None
            (meeting 3600 [alice, bob])))
       = Inr \<lparr>patch_description = cost_line_250, meetingCost = ascii ''250'',
               invitedCost = ascii ''250'', effectiveCost = ascii ''250''\<rparr>
   \<and> patch_execute refused_patch_env ''alice@hginsights.com''
         (event_id (meeting 3600 [alice, bob]))
         \<lparr>patch_description = cost_line_250, meetingCost = ascii ''250'',
           invitedCost = ascii ''250'', effectiveCost = ascii ''250''\<rparr>
       = Some ''403 Forbidden''
   \<and> process_event refused_patch_env ''alice@hginsights.com'' (start_state no_tokens)
         (meeting 3600 [alice, bob])
       = (start_state no_tokens)
           \<lparr>printed := printed (start_state no_tokens)
              @ [(''alice@hginsights.com'', event_id (meeting 3600 [alice, bob]),
                  UpstreamError ''403 Forbidden'')]\<rparr>
   \<and> fetch_changes (calendar_of refused_patch_env ''alice@hginsights.com'') None
       = Some (Inr (Some [meeting 3600 [alice, bob]], Some ''token-1''))
   \<and> fetch_changes (calendar_of refused_patch_env ''bob@hginsights.com'') None
       = Some (Inr (Some [meeting 3600 [alice, bob]], Some ''token-1''))
   \<and> (\<exists>st'. cron_loop refused_patch_env (start_state no_tokens)
          [''alice@hginsights.com'', ''bob@hginsights.com''] = Some (Returned st'))"
proof -
  have c: "env_config refused_patch_env = default_config"
    by (simp add: refused_patch_env_def)
  have h1: "\<not> is_skipped refused_patch_env (meeting 3600 [alice, bob])"
    by (rule alice_and_bob_not_skipped [OF c])
  have h2: "annotate_event (env_config refused_patch_env) (meeting 3600 [alice, bob])
         (CostDict (compute_meeting_cost (env_config refused_patch_env) None
            (meeting 3600 [alice, bob])))
       = Inr \<lparr>patch_description = cost_line_250, meetingCost = ascii ''250'',
               invitedCost = ascii ''250'', effectiveCost = ascii ''250''\<rparr>"
    unfolding c by (rule annotate_alice_and_bob)
  have h3: "patch_execute refused_patch_env ''alice@hginsights.com''
         (event_id (meeting 3600 [alice, bob]))
         \<lparr>patch_description = cost_line_250, meetingCost = ascii ''250'',
           invitedCost = ascii ''250'', effectiveCost = ascii ''250''\<rparr>
       = Some ''403 Forbidden''"
    by (simp add: refused_patch_env_def)
  have h4: "\<forall>u \<in> set [''alice@hginsights.com'', ''bob@hginsights.com'']. \<forall>tok. \<exists>its nxt.
          fetch_changes (calendar_of refused_patch_env u) tok = Some (Inr (Some its, nxt))"
    by (simp add: refused_patch_env_def fetch_one_meeting_calendar)
  note t = annotation_failure_is_local [of refused_patch_env "meeting 3600 [alice, bob]"
      "\<lparr>patch_description = cost_line_250, meetingCost = ascii ''250'',
        invitedCost = ascii ''250'', effectiveCost = ascii ''250''\<rparr>"
      "''alice@hginsights.com''" "''403 Forbidden''" "start_state no_tokens"
      "[]" "[]" "[]" "[''alice@hginsights.com'', ''bob@hginsights.com'']"]
  have r1: "process_event refused_patch_env ''alice@hginsights.com'' (start_state no_tokens)
         (meeting 3600 [alice, bob])
       = (start_state no_tokens)
           \<lparr>printed := printed (start_state no_tokens)
              @ [(''alice@hginsights.com'', event_id (meeting 3600 [alice, bob]),
                  UpstreamError ''403 Forbidden'')]\<rparr>"
    using t h1 h2 h3 by blast
  have r2: "\<exists>st'. cron_loop refused_patch_env (start_state no_tokens)
          [''alice@hginsights.com'', ''bob@hginsights.com''] = Some (Returned st')"
    using t h4 by blast
  have f: "fetch_changes (calendar_of refused_patch_env ''alice@hginsights.com'') None
       = Some (Inr (Some [meeting 3600 [alice, bob]], Some ''token-1''))"
    "fetch_changes (calendar_of refused_patch_env ''bob@hginsights.com'') None
       = Some (Inr (Some [meeting 3600 [alice, bob]], Some ''token-1''))"
    by (simp_all add: refused_patch_env_def fetch_one_meeting_calendar)
  from h1 h2 h3 r1 f r2 show ?thesis by (intro conjI)
qed

text \<open>
  C8, the claim as written. Every patch is refused. The run over Alice, whose calendar
  holds one meeting that qualifies, prints one line for the failed annotation and reports
  no processed event and no skipped event: the failure is in no counter.
\<close>

theorem failure_not_counted_counterexample:
  "reported (cron refused_patch_env no_tokens [''alice@hginsights.com'']) = Some (0, 0)
   \<and> map_option printed (final_state (cron refused_patch_env no_tokens [''alice@hginsights.com'']))
       = Some [(''alice@hginsights.com'', ''evt1'', UpstreamError ''403 Forbidden'')]"
proof -
  have c: "calendar_of refused_patch_env ''alice@hginsights.com'' = one_meeting_calendar"
    "env_config refused_patch_env = default_config"
    by (simp_all add: refused_patch_env_def)
  have "annotate_event (env_config refused_patch_env) (meeting 3600 [alice, bob])
         (CostDict (compute_meeting_cost (env_config refused_patch_env) None
            (meeting 3600 [alice, bob])))
       = Inr \<lparr>patch_description = cost_line_250, meetingCost = ascii ''250'',
               invitedCost = ascii ''250'', effectiveCost = ascii ''250''\<rparr>"
    unfolding c by (rule annotate_alice_and_bob)
  moreover have "patch_execute refused_patch_env ''alice@hginsights.com''
         (event_id (meeting 3600 [alice, bob]))
         \<lparr>patch_description = cost_line_250, meetingCost = ascii ''250'',
           invitedCost = ascii ''250'', effectiveCost = ascii ''250''\<rparr>
       = Some ''403 Forbidden''"
    by (simp add: refused_patch_env_def)
  ultimately have "process_event refused_patch_env ''alice@hginsights.com''
      (start_state no_tokens) (meeting 3600 [alice, bob])
      = (start_state no_tokens)
          \<lparr>printed := printed (start_state no_tokens)
             @ [(''alice@hginsights.com'', event_id (meeting 3600 [alice, bob]),
                 UpstreamError ''403 Forbidden'')]\<rparr>"
    by (rule process_event_failed_patch [OF alice_and_bob_not_skipped [OF c(2)]])
  then show ?thesis
    by (simp add: cron_def process_user_def c fetch_one_meeting_calendar process_events_def
        truthy_def reported_def final_state_def start_state_def event_id_meeting)
qed

end
